theory Spec2Isabelle
  imports Main "HOL-Library.Word"
begin

unbundle bit_operations_syntax

section \<open>Capability values\<close>

text \<open>
  The in-register capability \<open>cap_register_t\<close>. Its declaration lives in a header that is
  not part of the sources at hand; the fields are the ones
  \<open>target/mips/op_helper_cheri.c\<close> reads and writes: \<open>cr_offset\<close>, \<open>cr_base\<close>,
  \<open>_cr_top\<close> (an \<open>unsigned __int128\<close> holding 65 bits), \<open>cr_perms\<close>, \<open>cr_uperms\<close>,
  \<open>cr_otype\<close>, \<open>cr_tag\<close>, \<open>cr_pesbt_xored_for_mem\<close> and \<open>_sbit_for_memory\<close>.
\<close>

record cap_register =
  cr_offset :: "64 word"
  cr_base :: "64 word"
  cr_top :: "128 word"
  cr_perms :: "32 word"
  cr_uperms :: "32 word"
  cr_otype :: "32 word"
  cr_tag :: bool
  cr_pesbt_xored_for_mem :: "64 word"
  sbit_for_memory :: bool

text \<open>
  The three memory encodings are selected at compile time (\<open>#ifdef CHERI_128\<close>,
  \<open>#elif defined(CHERI_MAGIC128)\<close>, \<open>#else\<close>).
\<close>

datatype cheri_encoding = CHERI_128 | CHERI_MAGIC128 | CHERI_256

text \<open>
  Everything the helpers use from headers and from the compression library that is not
  part of the sources at hand is a parameter of the model: the object-type,
  user-permission and error-code constants, the two run-time policy flags for
  unrepresentable results, and the codec functions.
\<close>

record cheri_build =
  encoding :: cheri_encoding
  CAP_MAX_SEALED_OTYPE :: "32 word"
  CAP_OTYPE_UNSEALED :: "32 word"
  CAP_OTYPE_SENTRY :: "32 word"
  CAP_MAX_REPRESENTABLE_OTYPE :: "32 word"
  CAP_MAX_LENGTH :: "64 word"
  CAP_PERMS_ALL :: "32 word"
  CAP_UPERMS_ALL :: "32 word"
  CAP_UPERMS_SHFT :: nat
  CAP_MAX_UPERM :: nat
  EXCP_INST_NOTAVAIL :: "32 word"
  cheri_debugger_on_unrepresentable :: bool
  cheri_c2e_on_unrepresentable :: bool
  is_representable_cap :: "cap_register \<Rightarrow> 64 word \<Rightarrow> bool"
  is_representable_cap_when_sealed :: "cap_register \<Rightarrow> 64 word \<Rightarrow> bool"
  cc128_setbounds :: "cap_register \<Rightarrow> 64 word \<Rightarrow> 128 word \<Rightarrow> bool \<times> cap_register"
  cc128_is_representable_cap_exact :: "cap_register \<Rightarrow> bool"
  compress_128cap :: "cap_register \<Rightarrow> 64 word"
  compress_256cap :: "cap_register \<Rightarrow> 64 word \<times> 64 word \<times> 64 word \<times> 64 word"

text \<open>
  The macros \<open>CAP_PERM_*\<close> are declared in a header that is not part of the sources at
  hand. The spec lists the architectural permissions as a bitset in the order GLOBAL,
  EXECUTE, LOAD, STORE, LOAD_CAP, STORE_CAP, STORE_LOCAL, SEAL, UNSEAL, CCALL,
  ACCESS_SYS_REGS; each of those the helpers below use gets the bit of its position.
\<close>

text \<open>Modelled from the spec: \<open>CAP_PERM_GLOBAL\<close>, first in the permission bitset.\<close>

definition CAP_PERM_GLOBAL :: "32 word" where
  "CAP_PERM_GLOBAL = 0x001"

text \<open>Modelled from the spec: \<open>CAP_PERM_EXECUTE\<close>, second in the permission bitset.\<close>

definition CAP_PERM_EXECUTE :: "32 word" where
  "CAP_PERM_EXECUTE = 0x002"

text \<open>Modelled from the spec: \<open>CAP_PERM_LOAD\<close>, third in the permission bitset.\<close>

definition CAP_PERM_LOAD :: "32 word" where
  "CAP_PERM_LOAD = 0x004"

text \<open>Modelled from the spec: \<open>CAP_PERM_STORE\<close>, fourth in the permission bitset.\<close>

definition CAP_PERM_STORE :: "32 word" where
  "CAP_PERM_STORE = 0x008"


text \<open>Modelled from the spec: \<open>CAP_PERM_STORE_CAP\<close>, sixth in the permission bitset.\<close>

definition CAP_PERM_STORE_CAP :: "32 word" where
  "CAP_PERM_STORE_CAP = 0x020"

text \<open>Modelled from the spec: \<open>CAP_PERM_STORE_LOCAL\<close>, seventh in the permission bitset.\<close>

definition CAP_PERM_STORE_LOCAL :: "32 word" where
  "CAP_PERM_STORE_LOCAL = 0x040"

text \<open>Modelled from the spec: \<open>CAP_PERM_SEAL\<close>, eighth in the permission bitset.\<close>

definition CAP_PERM_SEAL :: "32 word" where
  "CAP_PERM_SEAL = 0x080"

text \<open>Modelled from the spec: \<open>CAP_PERM_UNSEAL\<close>, ninth in the permission bitset.\<close>

definition CAP_PERM_UNSEAL :: "32 word" where
  "CAP_PERM_UNSEAL = 0x100"


text \<open>Modelled from the spec: \<open>CAP_ACCESS_SYS_REGS\<close>, eleventh in the permission bitset.\<close>

definition CAP_ACCESS_SYS_REGS :: "32 word" where
  "CAP_ACCESS_SYS_REGS = 0x400"

text \<open>
  Modelled from the spec: \<open>CHERI_CAP_SIZE\<close> is declared in a header that is not part of
  the sources at hand. The two 128-bit encodings occupy 16 bytes of memory, the
  uncompressed one four 64-bit words.
\<close>

definition CHERI_CAP_SIZE :: "cheri_build \<Rightarrow> nat" where
  "CHERI_CAP_SIZE b = (case encoding b of CHERI_256 \<Rightarrow> 32 | _ \<Rightarrow> 16)"

text \<open>
  Modelled from the spec: \<open>null_capability\<close> is declared in a header that is not part of
  the sources at hand. The null capability has all fields zero and no tag.
\<close>

definition null_capability :: cap_register where
  "null_capability =
     \<lparr>cr_offset = 0, cr_base = 0, cr_top = 0, cr_perms = 0, cr_uperms = 0, cr_otype = 0,
      cr_tag = False, cr_pesbt_xored_for_mem = 0, sbit_for_memory = False\<rparr>"

text \<open>
  The accessors of a capability are declared in a header that is not part of the sources
  at hand; the spec gives their meaning. \<open>UINT64_MAX\<close> is the constant of \<open>stdint.h\<close>, here
  at the width of the 128-bit values it is compared with.
\<close>

definition UINT64_MAX :: "128 word" where
  "UINT64_MAX = 0xFFFFFFFFFFFFFFFF"

text \<open>
  Modelled from the spec: \<open>cap_get_cursor\<close> is missing. The offset is cursor minus base
  modulo \<open>2^64\<close>, so the cursor is base plus offset modulo \<open>2^64\<close>.
\<close>

definition cap_get_cursor :: "cap_register \<Rightarrow> 64 word" where
  "cap_get_cursor c = cr_base c + cr_offset c"

text \<open>Modelled from the spec: \<open>cap_get_base\<close> is missing. It reads the base.\<close>

definition cap_get_base :: "cap_register \<Rightarrow> 64 word" where
  "cap_get_base c = cr_base c"

text \<open>Modelled from the spec: \<open>cap_get_offset\<close> is missing. It reads the offset.\<close>

definition cap_get_offset :: "cap_register \<Rightarrow> 64 word" where
  "cap_get_offset c = cr_offset c"



text \<open>
  Modelled from the spec: \<open>cap_get_length65\<close> is missing. The length is top minus base,
  kept exact by the 65-bit accessor.
\<close>

definition cap_get_length65 :: "cap_register \<Rightarrow> 128 word" where
  "cap_get_length65 c = cr_top c - ucast (cr_base c)"

text \<open>
  Modelled from the spec: \<open>cap_get_length\<close> is missing. The 64-bit length saturates at
  \<open>UINT64_MAX\<close>.
\<close>

definition cap_get_length :: "cap_register \<Rightarrow> 64 word" where
  "cap_get_length c =
     (if cap_get_length65 c > UINT64_MAX then ucast UINT64_MAX else ucast (cap_get_length65 c))"

text \<open>
  Modelled from the spec: \<open>cap_is_in_bounds\<close> is declared in a header that is not part of
  the sources at hand. \<open>in_bounds(cap, addr, nbytes)\<close> is
  \<open>base \<le> addr \<and> addr + nbytes \<le> top\<close>, the sum taken without wrap-around.
\<close>

definition cap_is_in_bounds :: "cap_register \<Rightarrow> 64 word \<Rightarrow> 64 word \<Rightarrow> bool" where
  "cap_is_in_bounds c addr num_bytes =
     (cr_base c \<le> addr \<and> unat addr + unat num_bytes \<le> unat (cr_top c))"

text \<open>
  The sealing predicates and setters are declared in a header that is not part of the
  sources at hand. In the spec every otype is UNSEALED, SENTRY, a user type in
  \<open>[0, CAP_MAX_SEALED_OTYPE]\<close> or a reserved special value, and the three predicates
  tell the first three classes apart.
\<close>

text \<open>
  Modelled from the spec: \<open>cap_is_unsealed\<close> is missing. It holds of the otype UNSEALED.
\<close>

definition cap_is_unsealed :: "cheri_build \<Rightarrow> cap_register \<Rightarrow> bool" where
  "cap_is_unsealed b c = (cr_otype c = CAP_OTYPE_UNSEALED b)"

text \<open>
  Modelled from the spec: \<open>cap_is_sealed_entry\<close> is missing. It holds of the otype SENTRY.
\<close>

definition cap_is_sealed_entry :: "cheri_build \<Rightarrow> cap_register \<Rightarrow> bool" where
  "cap_is_sealed_entry b c = (cr_otype c = CAP_OTYPE_SENTRY b)"

text \<open>
  Modelled from the spec: \<open>cap_is_sealed_with_type\<close> is missing. It holds of the user
  otypes, those in \<open>[0, CAP_MAX_SEALED_OTYPE]\<close>.
\<close>

definition cap_is_sealed_with_type :: "cheri_build \<Rightarrow> cap_register \<Rightarrow> bool" where
  "cap_is_sealed_with_type b c = (cr_otype c \<le> CAP_MAX_SEALED_OTYPE b)"

text \<open>
  Modelled from the spec: \<open>cap_set_unsealed\<close> is missing. It makes the otype UNSEALED.
\<close>

definition cap_set_unsealed :: "cheri_build \<Rightarrow> cap_register \<Rightarrow> cap_register" where
  "cap_set_unsealed b c = c\<lparr>cr_otype := CAP_OTYPE_UNSEALED b\<rparr>"

text \<open>
  Modelled from the spec: \<open>cap_set_sealed\<close> is missing. It makes the otype the given user
  type.
\<close>

definition cap_set_sealed :: "cheri_build \<Rightarrow> cap_register \<Rightarrow> 32 word \<Rightarrow> cap_register" where
  "cap_set_sealed b c type = c\<lparr>cr_otype := type\<rparr>"

text \<open>\<open>is_cap_sealed\<close> and \<open>caps_have_same_type\<close>, as the source defines them.\<close>

definition is_cap_sealed :: "cheri_build \<Rightarrow> cap_register \<Rightarrow> bool" where
  "is_cap_sealed b cp = (cap_is_sealed_with_type b cp \<or> cap_is_sealed_entry b cp)"

definition caps_have_same_type :: "cap_register \<Rightarrow> cap_register \<Rightarrow> bool" where
  "caps_have_same_type cap1 cap2 = (cr_otype cap1 = cr_otype cap2)"

text \<open>
  Modelled from the spec: \<open>cap_mark_unrepresentable\<close> is declared in a header that is not
  part of the sources at hand. An unrepresentable result has its tag cleared and its
  cursor at the requested address.
\<close>

definition cap_mark_unrepresentable :: "64 word \<Rightarrow> cap_register \<Rightarrow> cap_register" where
  "cap_mark_unrepresentable addr cr = cr\<lparr>cr_offset := addr - cr_base cr, cr_tag := False\<rparr>"

section \<open>Architectural state\<close>

record CHWR_state =
  DDC :: cap_register
  UserTlsCap :: cap_register
  PrivTlsCap :: cap_register
  KR1C :: cap_register
  KR2C :: cap_register
  KCC :: cap_register
  KDC :: cap_register
  EPCC :: cap_register
  ErrorEPCC :: cap_register

text \<open>\<open>CGPR\<close> is the array \<open>_CGPR[32]\<close>, indexed by register number.\<close>

record TCState =
  CGPR :: "nat \<Rightarrow> cap_register"
  PCC :: cap_register
  CapBranchTarget :: cap_register
  CHWR :: CHWR_state

text \<open>
  The part of \<open>CPUMIPSState\<close> the capability helpers touch, together with the memory they
  reach through it. Modelled from the spec: the memory collaborator (\<open>cpu_stq_data_ra\<close>,
  \<open>cheri_tag_set\<close>, \<open>cheri_tag_invalidate\<close>, \<open>cheri_tag_set_m128\<close>) is not part of the
  sources at hand. Data memory maps an address to the eight-byte word stored there; tag
  memory maps the address of a capability-sized line to its tag bit; for the magic
  encoding the tag memory also carries the (type and permissions, length) pair.
  \<open>kernel_mode\<close> stands for the status bits that \<open>in_kernel_mode\<close> reads.
\<close>

record CPUMIPSState =
  active_tc :: TCState
  btarget :: "64 word"
  kernel_mode :: bool
  CP0_BadVAddr :: "64 word"
  error_code :: "32 word"
  CP2_CapCause :: "16 word"
  statcounters_icount :: "64 word"
  statcounters_icount_kernel :: "64 word"
  statcounters_icount_user :: "64 word"
  statcounters_unrepresentable_caps :: "64 word"
  statcounters_imprecise_setbounds :: "64 word"
  statcounters_cap_write :: "64 word"
  statcounters_cap_write_tagged :: "64 word"
  data_mem :: "64 word \<Rightarrow> 64 word"
  tag_mem :: "64 word \<Rightarrow> bool"
  tag_mem_m128 :: "64 word \<Rightarrow> 64 word \<times> 64 word"


text \<open>
  Modelled from the spec: \<open>get_readonly_capreg\<close> is missing. Register index 0 reads as
  the null capability.
\<close>

definition get_readonly_capreg :: "TCState \<Rightarrow> nat \<Rightarrow> cap_register" where
  "get_readonly_capreg state num = (if num = 0 then null_capability else CGPR state num)"

text \<open>
  Modelled from the spec: \<open>get_capreg_0_is_ddc\<close> is missing. For the operations that use
  it, register index 0 reads as DDC.
\<close>

definition get_capreg_0_is_ddc :: "TCState \<Rightarrow> nat \<Rightarrow> cap_register" where
  "get_capreg_0_is_ddc state num = (if num = 0 then DDC (CHWR state) else CGPR state num)"

text \<open>
  Modelled from the spec: \<open>update_capreg\<close> is missing. It stores the value in the register
  of the given index. The spec says nothing of a write to index 0; neither accessor above
  reads what is stored there.
\<close>

definition update_capreg :: "TCState \<Rightarrow> nat \<Rightarrow> cap_register \<Rightarrow> TCState" where
  "update_capreg state num newval = state\<lparr>CGPR := (CGPR state)(num := newval)\<rparr>"

text \<open>\<open>update_capreg(&env->active_tc, num, newval)\<close>, as every helper calls it.\<close>

definition set_capreg :: "CPUMIPSState \<Rightarrow> nat \<Rightarrow> cap_register \<Rightarrow> CPUMIPSState" where
  "set_capreg env num newval = env\<lparr>active_tc := update_capreg (active_tc env) num newval\<rparr>"

section \<open>Exceptions\<close>

text \<open>
  The capability cause codes the helpers raise, named as in \<open>cp2_fault_causestr\<close>.
\<close>

datatype cp2_cause =
    CP2Ca_LENGTH | CP2Ca_TAG | CP2Ca_SEAL | CP2Ca_TYPE | CP2Ca_CALL | CP2Ca_RETURN
  | CP2Ca_USRDEFINE | CP2Ca_INEXACT | CP2Ca_GLOBAL
  | CP2Ca_PERM_EXE | CP2Ca_PERM_LD | CP2Ca_PERM_ST | CP2Ca_PERM_LD_CAP | CP2Ca_PERM_ST_CAP
  | CP2Ca_PERM_ST_LC_CAP | CP2Ca_PERM_SEAL | CP2Ca_PERM_UNSEAL | CP2Ca_PERM_CCALL
  | CP2Ca_ACCESS_SYS_REGS

datatype mips_excp = EXCP_AdEL | EXCP_AdES | EXCP_RI | EXCP_DEBUG

text \<open>
  The raising functions leave the helper by \<open>longjmp\<close>; a failed \<open>assert\<close> aborts. Each is
  a value here: \<open>do_raise_c2_exception(env, cause, reg)\<close>,
  \<open>do_raise_c0_exception(env, excp, addr)\<close>, \<open>helper_raise_exception_debug(env)\<close>,
  \<open>assert\<close>. A raised exception carries the state at the moment it was raised.
\<close>

datatype raised =
    C2_exception cp2_cause nat
  | C0_exception mips_excp "64 word"
  | Debug_exception
  | Assert_failed

type_synonym 'a result = "(raised \<times> CPUMIPSState) + 'a"

text \<open>
  Modelled from the spec: \<open>do_raise_c2_exception\<close> is missing. \<open>raise_c2(kind,
  register_index)\<close> leaves the current instruction with the cause and the register it is
  given.
\<close>

definition do_raise_c2_exception :: "CPUMIPSState \<Rightarrow> cp2_cause \<Rightarrow> nat \<Rightarrow> 'a result" where
  "do_raise_c2_exception env cause reg = Inl (C2_exception cause reg, env)"

text \<open>
  Modelled from the spec: \<open>do_raise_c0_exception\<close> is missing. \<open>raise_c0(kind, addr)\<close>
  leaves the current instruction with the exception and the address it is given.
\<close>

definition do_raise_c0_exception :: "CPUMIPSState \<Rightarrow> mips_excp \<Rightarrow> 64 word \<Rightarrow> 'a result" where
  "do_raise_c0_exception env excp addr = Inl (C0_exception excp addr, env)"

section \<open>Branch helpers\<close>

definition helper_cbez :: "CPUMIPSState \<Rightarrow> nat \<Rightarrow> 32 word \<Rightarrow> 64 word" where
  "helper_cbez env cb offset =
     (let cbp = get_readonly_capreg (active_tc env) cb in
      if cr_base cbp = 0 \<and> cr_tag cbp = False \<and> cr_offset cbp = 0 then 1 else 0)"

definition helper_cbnz :: "CPUMIPSState \<Rightarrow> nat \<Rightarrow> 32 word \<Rightarrow> 64 word" where
  "helper_cbnz env cb offset =
     (let cbp = get_readonly_capreg (active_tc env) cb in
      if cr_base cbp = 0 \<and> cr_tag cbp = False \<and> cr_offset cbp = 0 then 0 else 1)"

section \<open>Permission helpers\<close>

definition helper_candperm :: "cheri_build \<Rightarrow> CPUMIPSState \<Rightarrow> nat \<Rightarrow> nat \<Rightarrow> 64 word \<Rightarrow> CPUMIPSState result" where
  "helper_candperm b env cd cb rt =
     (let cbp = get_readonly_capreg (active_tc env) cb in
      if \<not> cr_tag cbp then do_raise_c2_exception env CP2Ca_TAG cb
      else if is_cap_sealed b cbp then do_raise_c2_exception env CP2Ca_SEAL cb
      else
        let rt_perms = (ucast rt :: 32 word) AND CAP_PERMS_ALL b;
            rt_uperms = drop_bit (CAP_UPERMS_SHFT b) (ucast rt :: 32 word) AND CAP_UPERMS_ALL b;
            result = cbp\<lparr>cr_perms := cr_perms cbp AND rt_perms,
                         cr_uperms := cr_uperms cbp AND rt_uperms\<rparr>
        in Inr (set_capreg env cd result))"

definition helper_ccheckperm :: "cheri_build \<Rightarrow> CPUMIPSState \<Rightarrow> nat \<Rightarrow> 64 word \<Rightarrow> CPUMIPSState result" where
  "helper_ccheckperm b env cs rt =
     (let csp = get_readonly_capreg (active_tc env) cs;
          rt_perms = (ucast rt :: 32 word) AND CAP_PERMS_ALL b;
          rt_uperms = drop_bit (CAP_UPERMS_SHFT b) (ucast rt :: 32 word) AND CAP_UPERMS_ALL b
      in
      if \<not> cr_tag csp then do_raise_c2_exception env CP2Ca_TAG cs
      else if cr_perms csp AND rt_perms \<noteq> rt_perms then do_raise_c2_exception env CP2Ca_USRDEFINE cs
      else if cr_uperms csp AND rt_uperms \<noteq> rt_uperms then do_raise_c2_exception env CP2Ca_USRDEFINE cs
      else if drop_bit (16 + CAP_MAX_UPERM b) rt \<noteq> 0 then do_raise_c2_exception env CP2Ca_USRDEFINE cs
      else Inr env)"

section \<open>Cursor arithmetic\<close>

text \<open>
  \<open>_became_unrepresentable\<close>: in the compressed build it counts the event and raises
  according to the two policy flags; in the other builds it must not be reached.
\<close>

definition became_unrepresentable :: "cheri_build \<Rightarrow> CPUMIPSState \<Rightarrow> nat \<Rightarrow> CPUMIPSState result" where
  "became_unrepresentable b env reg =
     (if encoding b = CHERI_128 then
        let env1 = env\<lparr>statcounters_unrepresentable_caps :=
                         statcounters_unrepresentable_caps env + 1\<rparr>
        in if cheri_debugger_on_unrepresentable b then Inl (Debug_exception, env1)
           else if cheri_c2e_on_unrepresentable b then do_raise_c2_exception env1 CP2Ca_INEXACT reg
           else Inr env1
      else Inl (Assert_failed, env))"

definition helper_cfromptr :: "cheri_build \<Rightarrow> CPUMIPSState \<Rightarrow> nat \<Rightarrow> nat \<Rightarrow> 64 word \<Rightarrow> CPUMIPSState result" where
  "helper_cfromptr b env cd cb rt =
     (let cbp = get_capreg_0_is_ddc (active_tc env) cb in
      if rt = 0 then Inr (set_capreg env cd null_capability)
      else if \<not> cr_tag cbp then do_raise_c2_exception env CP2Ca_TAG cb
      else if is_cap_sealed b cbp then do_raise_c2_exception env CP2Ca_SEAL cb
      else
        let result = cbp\<lparr>cr_offset := rt\<rparr> in
        if \<not> is_representable_cap b cbp rt then
          (case became_unrepresentable b env cd of
             Inl e \<Rightarrow> Inl e
           | Inr env1 \<Rightarrow>
               Inr (set_capreg env1 cd (cap_mark_unrepresentable (cr_base cbp + rt) result)))
        else Inr (set_capreg env cd result))"

definition cincoffset_impl :: "cheri_build \<Rightarrow> CPUMIPSState \<Rightarrow> nat \<Rightarrow> nat \<Rightarrow> 64 word \<Rightarrow> CPUMIPSState result" where
  "cincoffset_impl b env cd cb rt =
     (let cbp = get_readonly_capreg (active_tc env) cb in
      if cr_tag cbp \<and> is_cap_sealed b cbp \<and> rt \<noteq> 0 then do_raise_c2_exception env CP2Ca_SEAL cb
      else
        let cb_offset_plus_rt = cr_offset cbp + rt;
            result = cbp\<lparr>cr_offset := cb_offset_plus_rt\<rparr>
        in
        if \<not> is_representable_cap b cbp cb_offset_plus_rt then
          (case (if cr_tag cbp then became_unrepresentable b env cd else Inr env) of
             Inl e \<Rightarrow> Inl e
           | Inr env1 \<Rightarrow>
               Inr (set_capreg env1 cd
                      (cap_mark_unrepresentable (cr_base cbp + cb_offset_plus_rt) result)))
        else Inr (set_capreg env cd result))"

definition helper_cincoffset :: "cheri_build \<Rightarrow> CPUMIPSState \<Rightarrow> nat \<Rightarrow> nat \<Rightarrow> 64 word \<Rightarrow> CPUMIPSState result" where
  "helper_cincoffset b env cd cb rt = cincoffset_impl b env cd cb rt"

definition helper_csetoffset :: "cheri_build \<Rightarrow> CPUMIPSState \<Rightarrow> nat \<Rightarrow> nat \<Rightarrow> 64 word \<Rightarrow> CPUMIPSState result" where
  "helper_csetoffset b env cd cb rt =
     (let cbp = get_readonly_capreg (active_tc env) cb in
      if cr_tag cbp \<and> is_cap_sealed b cbp then do_raise_c2_exception env CP2Ca_SEAL cb
      else
        let result = cbp\<lparr>cr_offset := rt\<rparr> in
        if \<not> is_representable_cap b cbp rt then
          (case (if cr_tag cbp then became_unrepresentable b env cd else Inr env) of
             Inl e \<Rightarrow> Inl e
           | Inr env1 \<Rightarrow>
               Inr (set_capreg env1 cd (cap_mark_unrepresentable (cr_base cbp + rt) result)))
        else Inr (set_capreg env cd result))"

section \<open>Sealing and unsealing\<close>

definition cseal_common :: "cheri_build \<Rightarrow> CPUMIPSState \<Rightarrow> nat \<Rightarrow> nat \<Rightarrow> nat \<Rightarrow> bool \<Rightarrow> CPUMIPSState result" where
  "cseal_common b env cd cs ct conditional =
     (let csp = get_readonly_capreg (active_tc env) cs;
          ctp = get_readonly_capreg (active_tc env) ct;
          ct_base_plus_offset = cap_get_cursor ctp
      in
      if \<not> cr_tag csp then do_raise_c2_exception env CP2Ca_TAG cs
      else if \<not> cr_tag ctp then
        (if conditional then Inr (set_capreg env cd csp)
         else do_raise_c2_exception env CP2Ca_TAG ct)
      else if conditional \<and> cap_get_cursor ctp = - 1 then Inr (set_capreg env cd csp)
      else if is_cap_sealed b csp then do_raise_c2_exception env CP2Ca_SEAL cs
      else if is_cap_sealed b ctp then do_raise_c2_exception env CP2Ca_SEAL ct
      else if cr_perms ctp AND CAP_PERM_SEAL = 0 then do_raise_c2_exception env CP2Ca_PERM_SEAL ct
      else if \<not> cap_is_in_bounds ctp ct_base_plus_offset 1 then
        do_raise_c2_exception env CP2Ca_LENGTH ct
      else if ct_base_plus_offset > ucast (CAP_MAX_SEALED_OTYPE b) then
        do_raise_c2_exception env CP2Ca_LENGTH ct
      else if \<not> is_representable_cap_when_sealed b csp (cap_get_offset csp) then
        do_raise_c2_exception env CP2Ca_INEXACT cs
      else Inr (set_capreg env cd (cap_set_sealed b csp (ucast ct_base_plus_offset))))"

definition helper_cseal :: "cheri_build \<Rightarrow> CPUMIPSState \<Rightarrow> nat \<Rightarrow> nat \<Rightarrow> nat \<Rightarrow> CPUMIPSState result" where
  "helper_cseal b env cd cs ct = cseal_common b env cd cs ct False"

definition helper_ccseal :: "cheri_build \<Rightarrow> CPUMIPSState \<Rightarrow> nat \<Rightarrow> nat \<Rightarrow> nat \<Rightarrow> CPUMIPSState result" where
  "helper_ccseal b env cd cs ct = cseal_common b env cd cs ct True"

definition helper_cunseal :: "cheri_build \<Rightarrow> CPUMIPSState \<Rightarrow> nat \<Rightarrow> nat \<Rightarrow> nat \<Rightarrow> CPUMIPSState result" where
  "helper_cunseal b env cd cs ct =
     (let csp = get_readonly_capreg (active_tc env) cs;
          ctp = get_readonly_capreg (active_tc env) ct;
          ct_cursor = cap_get_cursor ctp
      in
      if \<not> cr_tag csp then do_raise_c2_exception env CP2Ca_TAG cs
      else if \<not> cr_tag ctp then do_raise_c2_exception env CP2Ca_TAG ct
      else if cap_is_unsealed b csp then do_raise_c2_exception env CP2Ca_SEAL cs
      else if \<not> cap_is_unsealed b ctp then do_raise_c2_exception env CP2Ca_SEAL ct
      else if ct_cursor \<noteq> ucast (cr_otype csp) \<or> \<not> cap_is_sealed_with_type b csp then
        do_raise_c2_exception env CP2Ca_TYPE ct
      else if cr_perms ctp AND CAP_PERM_UNSEAL = 0 then
        do_raise_c2_exception env CP2Ca_PERM_UNSEAL ct
      else if \<not> cap_is_in_bounds ctp ct_cursor 1 then do_raise_c2_exception env CP2Ca_LENGTH ct
      else if ct_cursor \<ge> ucast (CAP_MAX_SEALED_OTYPE b) then
        do_raise_c2_exception env CP2Ca_LENGTH ct
      else
        let result =
              (if cr_perms csp AND CAP_PERM_GLOBAL \<noteq> 0 \<and> cr_perms ctp AND CAP_PERM_GLOBAL \<noteq> 0
               then csp\<lparr>cr_perms := cr_perms csp OR CAP_PERM_GLOBAL\<rparr>
               else csp\<lparr>cr_perms := cr_perms csp AND NOT CAP_PERM_GLOBAL\<rparr>)
        in Inr (set_capreg env cd (cap_set_unsealed b result)))"

section \<open>The check engine\<close>

text \<open>
  \<open>check_cap\<close> computes a cause and jumps to \<open>do_exception\<close>, or returns.
  \<open>check_cap_perm\<close> is its \<open>switch (perm)\<close>, entered when the capability lacks a bit of
  \<open>perm\<close>: only the three listed values raise, any other value leaves the switch and the
  checks go on. \<open>check_cap_cause\<close> is the cause on arrival at \<open>do_exception\<close>, \<open>None\<close> when
  the function returns instead.
\<close>

definition check_cap_perm :: "32 word \<Rightarrow> cp2_cause option" where
  "check_cap_perm perm =
     (if perm = CAP_PERM_EXECUTE then Some CP2Ca_PERM_EXE
      else if perm = CAP_PERM_LOAD then Some CP2Ca_PERM_LD
      else if perm = CAP_PERM_STORE then Some CP2Ca_PERM_ST
      else None)"

definition check_cap_cause :: "cheri_build \<Rightarrow> CPUMIPSState \<Rightarrow> cap_register \<Rightarrow> 32 word \<Rightarrow> 64 word \<Rightarrow> nat \<Rightarrow> 32 word \<Rightarrow> cp2_cause option" where
  "check_cap_cause b env cr perm addr regnum len =
     (if \<not> cr_tag cr then Some CP2Ca_TAG
      else if is_cap_sealed b cr then Some CP2Ca_SEAL
      else
        (case (if cr_perms cr AND perm \<noteq> perm then check_cap_perm perm else None) of
           Some cause \<Rightarrow> Some cause
         | None \<Rightarrow>
             if \<not> cap_is_in_bounds cr addr (ucast len) then Some CP2Ca_LENGTH
             else if \<not> caps_have_same_type (PCC (active_tc env)) cr then
               (if regnum = 0 then None else Some CP2Ca_TYPE)
             else None))"

definition check_cap :: "cheri_build \<Rightarrow> CPUMIPSState \<Rightarrow> cap_register \<Rightarrow> 32 word \<Rightarrow> 64 word \<Rightarrow> nat \<Rightarrow> 32 word \<Rightarrow> bool \<Rightarrow> CPUMIPSState result" where
  "check_cap b env cr perm addr regnum len instavail =
     (case check_cap_cause b env cr perm addr regnum len of
        None \<Rightarrow> Inr env
      | Some cause \<Rightarrow>
          let env1 = env\<lparr>CP0_BadVAddr := addr\<rparr>;
              env2 = (if \<not> instavail
                      then env1\<lparr>error_code := error_code env1 OR EXCP_INST_NOTAVAIL b\<rparr>
                      else env1)
          in do_raise_c2_exception env2 cause regnum)"




definition check_ddc :: "cheri_build \<Rightarrow> CPUMIPSState \<Rightarrow> 32 word \<Rightarrow> 64 word \<Rightarrow> 32 word \<Rightarrow> bool \<Rightarrow> 64 word result" where
  "check_ddc b env perm ddc_offset len instavail =
     (let ddc = DDC (CHWR (active_tc env));
          addr = ddc_offset + cap_get_cursor ddc
      in case check_cap b env ddc perm addr 0 len instavail of
           Inl e \<Rightarrow> Inl e
         | Inr env1 \<Rightarrow> Inr addr)"



definition helper_ccheck_store_right :: "cheri_build \<Rightarrow> CPUMIPSState \<Rightarrow> 64 word \<Rightarrow> 32 word \<Rightarrow> 64 word result" where
  "helper_ccheck_store_right b env offset len =
     (let low_bits = (ucast offset :: 32 word) AND (len - 1);
          stored_bytes = low_bits + 1;
          write_offset = offset AND NOT (ucast len - 1)
      in case check_ddc b env CAP_PERM_STORE write_offset stored_bytes True of
           Inl e \<Rightarrow> Inl e
         | Inr addr \<Rightarrow> Inr (addr + ucast low_bits))"

definition helper_ccheck_load_right :: "cheri_build \<Rightarrow> CPUMIPSState \<Rightarrow> 64 word \<Rightarrow> 32 word \<Rightarrow> 64 word result" where
  "helper_ccheck_load_right b env offset len =
     (let low_bits = (ucast offset :: 32 word) AND (len - 1);
          loaded_bytes = low_bits + 1;
          read_offset = offset AND NOT (ucast len - 1)
      in case check_ddc b env CAP_PERM_LOAD read_offset loaded_bytes True of
           Inl e \<Rightarrow> Inl e
         | Inr addr \<Rightarrow> Inr (addr + ucast low_bits))"

section \<open>Setting bounds\<close>





section \<open>Storing a capability\<close>

definition align_of :: "nat \<Rightarrow> 64 word \<Rightarrow> 64 word" where
  "align_of sz addr =
     (if sz = 1 then 0
      else if sz = 2 then addr AND 0x1
      else if sz = 4 then addr AND 0x3
      else if sz = 8 then addr AND 0x7
      else if sz = 16 then addr AND 0xf
      else if sz = 32 then addr AND 0x1f
      else if sz = 64 then addr AND 0x3f
      else if sz = 128 then addr AND 0x7f
      else 1)"

text \<open>
  The memory functions are not part of the sources at hand; the spec gives their
  meaning. Every address is taken to be mapped: the TLB faults of the collaborator are
  outside the model.
\<close>

text \<open>
  Modelled from the spec: the tag memory itself is missing. It holds one tag per aligned
  capability-sized location; \<open>tag_line\<close> is the location that holds an address.
\<close>

definition tag_line :: "cheri_build \<Rightarrow> 64 word \<Rightarrow> 64 word" where
  "tag_line b addr = addr AND NOT (of_nat (CHERI_CAP_SIZE b) - 1)"

text \<open>
  Modelled from the spec: \<open>cpu_stq_data_ra\<close> is missing. \<open>stq(addr, value)\<close> stores eight
  bytes of data.
\<close>

definition cpu_stq_data_ra :: "CPUMIPSState \<Rightarrow> 64 word \<Rightarrow> 64 word \<Rightarrow> CPUMIPSState" where
  "cpu_stq_data_ra env addr val = env\<lparr>data_mem := (data_mem env)(addr := val)\<rparr>"

text \<open>
  Modelled from the spec: \<open>cheri_tag_set\<close> is missing. \<open>tag_set(addr)\<close> sets the tag of the
  location that holds \<open>addr\<close>.
\<close>

definition cheri_tag_set :: "cheri_build \<Rightarrow> CPUMIPSState \<Rightarrow> 64 word \<Rightarrow> CPUMIPSState" where
  "cheri_tag_set b env vaddr = env\<lparr>tag_mem := (tag_mem env)(tag_line b vaddr := True)\<rparr>"

text \<open>
  Modelled from the spec: \<open>cheri_tag_invalidate\<close> is missing. \<open>tag_invalidate(addr, nbytes)\<close>
  clears the tag of every location that overlaps the \<open>nbytes\<close> bytes at \<open>addr\<close>.
\<close>

definition cheri_tag_invalidate :: "cheri_build \<Rightarrow> CPUMIPSState \<Rightarrow> 64 word \<Rightarrow> nat \<Rightarrow> CPUMIPSState" where
  "cheri_tag_invalidate b env vaddr sz =
     env\<lparr>tag_mem :=
            (\<lambda>line. if unat line < unat vaddr + sz \<and> unat vaddr < unat line + CHERI_CAP_SIZE b
                    then False else tag_mem env line)\<rparr>"

text \<open>
  Modelled from the spec: \<open>cheri_tag_set_m128\<close> is missing. The magic variant stores the
  tag it is given and side-carries the type-and-permissions word and the length.
\<close>

definition cheri_tag_set_m128 :: "cheri_build \<Rightarrow> CPUMIPSState \<Rightarrow> 64 word \<Rightarrow> bool \<Rightarrow> 64 word \<Rightarrow> 64 word \<Rightarrow> CPUMIPSState" where
  "cheri_tag_set_m128 b env vaddr tag tps len =
     env\<lparr>tag_mem := (tag_mem env)(tag_line b vaddr := tag),
         tag_mem_m128 := (tag_mem_m128 env)(tag_line b vaddr := (tps, len))\<rparr>"

definition get_csc_addr :: "cheri_build \<Rightarrow> CPUMIPSState \<Rightarrow> nat \<Rightarrow> nat \<Rightarrow> 64 word \<Rightarrow> 32 word \<Rightarrow> 64 word result" where
  "get_csc_addr b env cs cb rt offset =
     (let cbp = get_capreg_0_is_ddc (active_tc env) cb;
          csp = get_readonly_capreg (active_tc env) cs
      in
      if \<not> cr_tag cbp then do_raise_c2_exception env CP2Ca_TAG cb
      else if is_cap_sealed b cbp then do_raise_c2_exception env CP2Ca_SEAL cb
      else if cr_perms cbp AND CAP_PERM_STORE = 0 then do_raise_c2_exception env CP2Ca_PERM_ST cb
      else if cr_perms cbp AND CAP_PERM_STORE_CAP = 0 then
        do_raise_c2_exception env CP2Ca_PERM_ST_CAP cb
      else if cr_perms cbp AND CAP_PERM_STORE_LOCAL = 0 \<and> cr_tag csp \<and>
              cr_perms csp AND CAP_PERM_GLOBAL = 0 then
        do_raise_c2_exception env CP2Ca_PERM_ST_LC_CAP cb
      else
        let cursor = cap_get_cursor cbp;
            addr = (cursor + rt) + scast offset
        in
        if \<not> cap_is_in_bounds cbp addr (of_nat (CHERI_CAP_SIZE b)) then
          do_raise_c2_exception env CP2Ca_LENGTH cb
        else if align_of (CHERI_CAP_SIZE b) addr \<noteq> 0 then do_raise_c0_exception env EXCP_AdES addr
        else Inr addr)"

text \<open>
  \<open>store_cap_to_memory\<close> has one body per encoding. All three count the write, stage the
  tag, and then store the data words.
\<close>

definition store_cap_to_memory_128 :: "cheri_build \<Rightarrow> CPUMIPSState \<Rightarrow> nat \<Rightarrow> 64 word \<Rightarrow> CPUMIPSState" where
  "store_cap_to_memory_128 b env cs vaddr =
     (let csp = get_readonly_capreg (active_tc env) cs;
          cursor = cap_get_cursor csp;
          pesbt = (if cr_tag csp then compress_128cap b csp else cr_pesbt_xored_for_mem csp);
          env1 = env\<lparr>statcounters_cap_write := statcounters_cap_write env + 1\<rparr>;
          env2 = (if cr_tag csp
                  then cheri_tag_set b
                         (env1\<lparr>statcounters_cap_write_tagged :=
                                 statcounters_cap_write_tagged env1 + 1\<rparr>) vaddr
                  else cheri_tag_invalidate b env1 vaddr (CHERI_CAP_SIZE b));
          env3 = cpu_stq_data_ra env2 vaddr pesbt
      in cpu_stq_data_ra env3 (vaddr + 8) cursor)"

definition store_cap_to_memory_magic128 :: "cheri_build \<Rightarrow> CPUMIPSState \<Rightarrow> nat \<Rightarrow> 64 word \<Rightarrow> CPUMIPSState" where
  "store_cap_to_memory_magic128 b env cs vaddr =
     (let csp = get_readonly_capreg (active_tc env) cs;
          base = cap_get_base csp;
          cursor = cap_get_cursor csp;
          perms = (ucast (push_bit (CAP_UPERMS_SHFT b) (cr_uperms csp AND CAP_UPERMS_ALL b) OR
                          (cr_perms csp AND CAP_PERMS_ALL b)) :: 64 word);
          sbit = (if cr_tag csp then is_cap_sealed b csp else sbit_for_memory csp);
          tps = push_bit 32 (ucast (cr_otype csp XOR CAP_MAX_REPRESENTABLE_OTYPE b) :: 64 word) OR
                push_bit 1 perms OR (if sbit then 1 else 0);
          len = cap_get_length csp XOR CAP_MAX_LENGTH b;
          env1 = cheri_tag_set_m128 b env vaddr (cr_tag csp) tps len;
          env2 = env1\<lparr>statcounters_cap_write := statcounters_cap_write env1 + 1\<rparr>;
          env3 = (if cr_tag csp
                  then env2\<lparr>statcounters_cap_write_tagged := statcounters_cap_write_tagged env2 + 1\<rparr>
                  else env2);
          env4 = cpu_stq_data_ra env3 vaddr base
      in cpu_stq_data_ra env4 (vaddr + 8) cursor)"

definition store_cap_to_memory_256 :: "cheri_build \<Rightarrow> CPUMIPSState \<Rightarrow> nat \<Rightarrow> 64 word \<Rightarrow> CPUMIPSState" where
  "store_cap_to_memory_256 b env cs vaddr =
     (let csp = get_readonly_capreg (active_tc env) cs;
          mem_buffer = compress_256cap b csp;
          env1 = env\<lparr>statcounters_cap_write := statcounters_cap_write env + 1\<rparr>;
          env2 = (if cr_tag csp
                  then cheri_tag_set b
                         (env1\<lparr>statcounters_cap_write_tagged :=
                                 statcounters_cap_write_tagged env1 + 1\<rparr>) vaddr
                  else cheri_tag_invalidate b env1 vaddr (CHERI_CAP_SIZE b));
          env3 = cpu_stq_data_ra env2 (vaddr + 0) (fst mem_buffer);
          env4 = cpu_stq_data_ra env3 (vaddr + 8) (fst (snd mem_buffer));
          env5 = cpu_stq_data_ra env4 (vaddr + 16) (fst (snd (snd mem_buffer)))
      in cpu_stq_data_ra env5 (vaddr + 24) (snd (snd (snd mem_buffer))))"

definition store_cap_to_memory :: "cheri_build \<Rightarrow> CPUMIPSState \<Rightarrow> nat \<Rightarrow> 64 word \<Rightarrow> CPUMIPSState" where
  "store_cap_to_memory b env cs vaddr =
     (case encoding b of
        CHERI_128 \<Rightarrow> store_cap_to_memory_128 b env cs vaddr
      | CHERI_MAGIC128 \<Rightarrow> store_cap_to_memory_magic128 b env cs vaddr
      | CHERI_256 \<Rightarrow> store_cap_to_memory_256 b env cs vaddr)"

text \<open>
  \<open>helper_csc_without_tcg\<close>: the address checks, then the store. Its
  \<open>cheri_debug_assert\<close> on the alignment is compiled in only in debug builds and repeats
  the check \<open>get_csc_addr\<close> has just made.
\<close>

definition helper_csc_without_tcg :: "cheri_build \<Rightarrow> CPUMIPSState \<Rightarrow> nat \<Rightarrow> nat \<Rightarrow> 64 word \<Rightarrow> 32 word \<Rightarrow> CPUMIPSState result" where
  "helper_csc_without_tcg b env cs cb rt offset =
     (case get_csc_addr b env cs cb rt offset of
        Inl e \<Rightarrow> Inl e
      | Inr vaddr \<Rightarrow> Inr (store_cap_to_memory b env cs vaddr))"

section \<open>Debugger reads of capability registers\<close>

text \<open>
  A read fills the debugger's buffer and returns the number of bytes: the model returns
  the 64-bit words stored, in order, the byte count, and the state.
\<close>

type_synonym gdb_reply = "64 word list \<times> nat"

text \<open>
  Modelled from the spec: \<open>gdb_get_regl\<close> is missing. The integer registers of the
  debugger interface are one \<open>target_ulong\<close> each, eight bytes on this 64-bit target.
\<close>

definition gdb_get_regl :: "64 word \<Rightarrow> gdb_reply" where
  "gdb_get_regl val = ([val], 8)"

definition gdb_get_capreg :: "cheri_build \<Rightarrow> cap_register \<Rightarrow> gdb_reply" where
  "gdb_get_capreg b cap =
     (case encoding b of
        CHERI_128 \<Rightarrow>
          ([if cr_tag cap then compress_128cap b cap else cr_pesbt_xored_for_mem cap,
            cap_get_cursor cap], 16)
      | CHERI_MAGIC128 \<Rightarrow> ([0, cap_get_cursor cap], 16)
      | CHERI_256 \<Rightarrow>
          (let memory_representation = compress_256cap b cap in
           ([fst memory_representation, fst (snd memory_representation),
             fst (snd (snd memory_representation)), snd (snd (snd memory_representation))], 32)))"

text \<open>
  The loop of case 43 over the general registers 1 to 31. The register number \<open>n\<close> of a
  read is an \<open>int\<close> in the source; the debugger numbers registers from 0, so it is a
  natural number here.
\<close>

definition cap_valid_loop :: "TCState \<Rightarrow> 64 word \<Rightarrow> 64 word" where
  "cap_valid_loop tc cap_valid =
     fold (\<lambda>i v. if cr_tag (CGPR tc i) then v OR push_bit i 1 else v) [1..<32] cap_valid"

definition mips_gdb_get_cheri_reg :: "cheri_build \<Rightarrow> CPUMIPSState \<Rightarrow> nat \<Rightarrow> gdb_reply \<times> CPUMIPSState" where
  "mips_gdb_get_cheri_reg b env n =
     (let tc = active_tc env in
      if n < 32 then (gdb_get_capreg b (CGPR tc n), env)
      else if n = 32 then (gdb_get_capreg b (DDC (CHWR tc)), env)
      else if n = 33 then (gdb_get_capreg b (PCC tc), env)
      else if n = 34 then (gdb_get_capreg b (UserTlsCap (CHWR tc)), env)
      else if n = 35 then (gdb_get_capreg b (PrivTlsCap (CHWR tc)), env)
      else if n = 36 then (gdb_get_capreg b (KR1C (CHWR tc)), env)
      else if n = 37 then (gdb_get_capreg b (KR2C (CHWR tc)), env)
      else if n = 38 then (gdb_get_capreg b (KCC (CHWR tc)), env)
      else if n = 39 then (gdb_get_capreg b (KDC (CHWR tc)), env)
      else if n = 40 then (gdb_get_capreg b (EPCC (CHWR tc)), env)
      else if n = 41 then (gdb_get_capreg b (ErrorEPCC (CHWR tc)), env)
      else if n = 42 then (gdb_get_regl (ucast (CP2_CapCause env)), env)
      else if n = 43 then
        (let cap_valid0 = (if cr_tag (DDC (CHWR tc)) then 0 OR 1 else 0);
             cap_valid1 = cap_valid_loop tc cap_valid0;
             cap_valid2 = (if cr_tag (PCC tc) then cap_valid1 OR push_bit 32 1 else cap_valid1)
         in (gdb_get_regl cap_valid2, env))
      else (([], 0), env))"

section \<open>A concrete build and state\<close>

text \<open>
  A build on which the model can be run: the compressed encoding with 18-bit object
  types, twelve architectural and four user permissions, and a codec that sets bounds
  exactly and represents every offset below \<open>2^48\<close>.
\<close>

definition example_build :: cheri_build where
  "example_build =
     \<lparr>encoding = CHERI_128,
      CAP_MAX_SEALED_OTYPE = 0x3fffb,
      CAP_OTYPE_UNSEALED = 0x3ffff,
      CAP_OTYPE_SENTRY = 0x3fffe,
      CAP_MAX_REPRESENTABLE_OTYPE = 0x3ffff,
      CAP_MAX_LENGTH = 0xffffffffffffffff,
      CAP_PERMS_ALL = 0xfff,
      CAP_UPERMS_ALL = 0xf,
      CAP_UPERMS_SHFT = 15,
      CAP_MAX_UPERM = 3,
      EXCP_INST_NOTAVAIL = 0x2,
      cheri_debugger_on_unrepresentable = False,
      cheri_c2e_on_unrepresentable = False,
      is_representable_cap = (\<lambda>c new_offset. new_offset < 0x1000000000000),
      is_representable_cap_when_sealed = (\<lambda>c new_offset. new_offset < 0x1000000000000),
      cc128_setbounds =
        (\<lambda>c cursor top. (True, c\<lparr>cr_base := cursor, cr_top := top, cr_offset := 0\<rparr>)),
      cc128_is_representable_cap_exact = (\<lambda>c. True),
      compress_128cap = (\<lambda>c. ucast (cr_perms c)),
      compress_256cap = (\<lambda>c. (ucast (cr_perms c), cap_get_cursor c, cr_base c, cap_get_length c))\<rparr>"


text \<open>
  Capabilities for the examples: \<open>data_cap\<close> is tagged, unsealed, with every permission,
  over \<open>[0x1000, 0x2000)\<close>; \<open>sealer_cap\<close> is a tagged, unsealed sealing authority over the
  object types below \<open>0x100\<close> with its cursor at \<open>0x42\<close>; \<open>sealed_cap\<close> is \<open>data_cap\<close>
  sealed with type \<open>0x42\<close>; \<open>untagged_sealed_cap\<close> is the same without its tag;
  \<open>whole_cap\<close> spans the whole address space with its cursor in the middle;
  \<open>bare_cap\<close> is tagged and unsealed but holds no permission.
\<close>

definition data_cap :: cap_register where
  "data_cap =
     \<lparr>cr_offset = 0x10, cr_base = 0x1000, cr_top = 0x2000, cr_perms = 0xfff, cr_uperms = 0xf,
      cr_otype = 0x3ffff, cr_tag = True, cr_pesbt_xored_for_mem = 0, sbit_for_memory = False\<rparr>"

definition sealer_cap :: cap_register where
  "sealer_cap =
     \<lparr>cr_offset = 0x42, cr_base = 0, cr_top = 0x100, cr_perms = 0xfff, cr_uperms = 0,
      cr_otype = 0x3ffff, cr_tag = True, cr_pesbt_xored_for_mem = 0, sbit_for_memory = False\<rparr>"

definition sealed_cap :: cap_register where
  "sealed_cap = data_cap\<lparr>cr_otype := 0x42\<rparr>"

definition untagged_sealed_cap :: cap_register where
  "untagged_sealed_cap = data_cap\<lparr>cr_otype := 0x42, cr_tag := False\<rparr>"

definition whole_cap :: cap_register where
  "whole_cap =
     \<lparr>cr_offset = 0x8000000000000000, cr_base = 0, cr_top = 0x10000000000000000,
      cr_perms = 0xfff, cr_uperms = 0xf, cr_otype = 0x3ffff, cr_tag = True,
      cr_pesbt_xored_for_mem = 0, sbit_for_memory = False\<rparr>"

definition bare_cap :: cap_register where
  "bare_cap = data_cap\<lparr>cr_perms := 0, cr_uperms := 0\<rparr>"

definition example_chwr :: CHWR_state where
  "example_chwr =
     \<lparr>DDC = data_cap, UserTlsCap = null_capability, PrivTlsCap = null_capability,
      KR1C = null_capability, KR2C = null_capability, KCC = null_capability,
      KDC = null_capability, EPCC = null_capability, ErrorEPCC = null_capability\<rparr>"

definition example_tc :: TCState where
  "example_tc =
     \<lparr>CGPR = (\<lambda>i. if i = 1 then data_cap else if i = 2 then sealer_cap
                  else if i = 3 then sealed_cap else if i = 4 then untagged_sealed_cap
                  else if i = 5 then whole_cap else if i = 6 then bare_cap
                  else if i = 8 then data_cap else null_capability),
      PCC = data_cap, CapBranchTarget = null_capability, CHWR = example_chwr\<rparr>"

definition example_env :: CPUMIPSState where
  "example_env =
     \<lparr>active_tc = example_tc, btarget = 0x1020, kernel_mode = False,
      CP0_BadVAddr = 0, error_code = 0, CP2_CapCause = 0,
      statcounters_icount = 0, statcounters_icount_kernel = 0, statcounters_icount_user = 0,
      statcounters_unrepresentable_caps = 0, statcounters_imprecise_setbounds = 0,
      statcounters_cap_write = 0, statcounters_cap_write_tagged = 0,
      data_mem = (\<lambda>a. 0), tag_mem = (\<lambda>a. False), tag_mem_m128 = (\<lambda>a. (0, 0))\<rparr>"

section \<open>Properties\<close>

lemmas example_defs = example_env_def example_tc_def example_chwr_def example_build_def
  data_cap_def sealer_cap_def sealed_cap_def untagged_sealed_cap_def whole_cap_def bare_cap_def
  null_capability_def get_readonly_capreg_def get_capreg_0_is_ddc_def

text \<open>What a helper writes with \<open>update_capreg\<close> is what the register then holds.\<close>

lemma set_capreg_read: "CGPR (active_tc (set_capreg env cd c)) cd = c"
  by (simp add: set_capreg_def update_capreg_def)

subsection \<open>The check engine\<close>






subsection \<open>Branches on null\<close>

text \<open>
  C3, as amended. \<open>helper_cbez\<close> returns non-zero exactly when the capability is the null
  sentinel (base 0, no tag, offset 0); \<open>helper_cbnz\<close> returns non-zero exactly when
  \<open>helper_cbez\<close> returns zero, and the two values always add up to 1.
\<close>

theorem cbnz_negates_cbez:
  "(helper_cbez env cb offset \<noteq> 0) =
     (cr_base (get_readonly_capreg (active_tc env) cb) = 0 \<and>
      cr_tag (get_readonly_capreg (active_tc env) cb) = False \<and>
      cr_offset (get_readonly_capreg (active_tc env) cb) = 0) \<and>
   (helper_cbnz env cb offset \<noteq> 0) = (helper_cbez env cb offset = 0) \<and>
   helper_cbnz env cb offset = 1 - helper_cbez env cb offset"
  by (simp add: helper_cbez_def helper_cbnz_def Let_def)

text \<open>
  The claim C3 as stated fails on the null register: there \<open>helper_cbez\<close> returns 1 and
  \<open>helper_cbnz\<close> returns 0.
\<close>

theorem cbez_cbnz_at_null:
  "helper_cbez example_env 0 0 = 1 \<and> helper_cbnz example_env 0 0 = 0"
  by (simp add: helper_cbez_def helper_cbnz_def get_readonly_capreg_def null_capability_def)

subsection \<open>Unsealing\<close>

text \<open>
  C5. Whenever \<open>helper_cunseal\<close> succeeds, the cursor of \<open>ct\<close> equals the otype of \<open>cs\<close>,
  \<open>ct\<close> holds UNSEAL and its cursor is within its bounds; the destination register
  then holds \<open>cs\<close> with only its otype and permissions changed: the otype is UNSEALED,
  every permission other than GLOBAL is as in \<open>cs\<close>, and GLOBAL is set exactly when both
  \<open>cs\<close> and \<open>ct\<close> hold it.
\<close>

theorem cunseal_success:
  assumes "helper_cunseal b env cd cs ct = Inr env'"
  shows "let csp = get_readonly_capreg (active_tc env) cs;
             ctp = get_readonly_capreg (active_tc env) ct;
             perms' = (if cr_perms csp AND CAP_PERM_GLOBAL \<noteq> 0 \<and> cr_perms ctp AND CAP_PERM_GLOBAL \<noteq> 0
                       then cr_perms csp OR CAP_PERM_GLOBAL
                       else cr_perms csp AND NOT CAP_PERM_GLOBAL)
         in cap_get_cursor ctp = ucast (cr_otype csp) \<and>
            cr_perms ctp AND CAP_PERM_UNSEAL \<noteq> 0 \<and>
            cap_is_in_bounds ctp (cap_get_cursor ctp) 1 \<and>
            env' = set_capreg env cd (csp\<lparr>cr_perms := perms', cr_otype := CAP_OTYPE_UNSEALED b\<rparr>) \<and>
            CGPR (active_tc env') cd = csp\<lparr>cr_perms := perms', cr_otype := CAP_OTYPE_UNSEALED b\<rparr> \<and>
            cap_is_unsealed b (csp\<lparr>cr_perms := perms', cr_otype := CAP_OTYPE_UNSEALED b\<rparr>) \<and>
            perms' AND NOT CAP_PERM_GLOBAL = cr_perms csp AND NOT CAP_PERM_GLOBAL \<and>
            (perms' AND CAP_PERM_GLOBAL \<noteq> 0) =
              (cr_perms csp AND CAP_PERM_GLOBAL \<noteq> 0 \<and> cr_perms ctp AND CAP_PERM_GLOBAL \<noteq> 0)"
proof -
  have g1: "(x OR CAP_PERM_GLOBAL) AND NOT CAP_PERM_GLOBAL = x AND NOT CAP_PERM_GLOBAL" for x
    by (simp add: bit_eq_iff bit_simps) blast
  have g2: "(x AND NOT CAP_PERM_GLOBAL) AND CAP_PERM_GLOBAL = 0" for x
    by (simp add: bit_eq_iff bit_simps)
  have g3: "(x OR CAP_PERM_GLOBAL) AND CAP_PERM_GLOBAL \<noteq> 0" for x
    by (simp add: CAP_PERM_GLOBAL_def bit_eq_iff bit_simps) (rule exI [of _ 0], simp)
  show ?thesis
    using assms
    by (auto simp add: helper_cunseal_def Let_def do_raise_c2_exception_def cap_set_unsealed_def
        cap_is_unsealed_def set_capreg_read g1 g2 g3 split: if_splits)
qed

text \<open>
  Unsealing \<open>sealed_cap\<close> with \<open>sealer_cap\<close> succeeds, and register 7, null before, holds
  \<open>data_cap\<close> afterwards.
\<close>

theorem cunseal_success_witness:
  "\<exists>env'. helper_cunseal example_build example_env 7 3 2 = Inr env' \<and>
          CGPR (active_tc env') 7 = data_cap \<and>
          CGPR (active_tc example_env) 7 = null_capability \<and>
          cap_get_cursor sealer_cap = ucast (cr_otype sealed_cap) \<and>
          cr_perms sealer_cap AND CAP_PERM_UNSEAL \<noteq> 0 \<and>
          cap_is_in_bounds sealer_cap (cap_get_cursor sealer_cap) 1 \<and>
          cap_is_unsealed example_build data_cap"
proof -
  have g3: "get_readonly_capreg (active_tc example_env) 3 = sealed_cap"
    by (simp add: get_readonly_capreg_def example_env_def example_tc_def)
  have g2: "get_readonly_capreg (active_tc example_env) 2 = sealer_cap"
    by (simp add: get_readonly_capreg_def example_env_def example_tc_def)
  have r: "sealed_cap\<lparr>cr_perms := cr_perms sealed_cap OR CAP_PERM_GLOBAL,
                      cr_otype := CAP_OTYPE_UNSEALED example_build\<rparr> = data_cap"
    by (simp add: sealed_cap_def data_cap_def CAP_PERM_GLOBAL_def example_build_def)
  have h: "helper_cunseal example_build example_env 7 3 2 = Inr (set_capreg example_env 7 data_cap)"
    unfolding helper_cunseal_def g3 g2 Let_def
    by (simp add: sealed_cap_def sealer_cap_def data_cap_def example_build_def
        cap_is_unsealed_def cap_is_sealed_with_type_def cap_get_cursor_def cap_is_in_bounds_def
        cap_set_unsealed_def CAP_PERM_GLOBAL_def CAP_PERM_UNSEAL_def)
  have n: "CGPR (active_tc example_env) 7 = null_capability"
    by (simp add: example_env_def example_tc_def)
  have "CGPR (active_tc (set_capreg example_env 7 data_cap)) 7 = data_cap \<and>
        cap_get_cursor sealer_cap = ucast (cr_otype sealed_cap) \<and>
        cr_perms sealer_cap AND CAP_PERM_UNSEAL \<noteq> 0 \<and>
        cap_is_in_bounds sealer_cap (cap_get_cursor sealer_cap) 1 \<and>
        cap_is_unsealed example_build data_cap"
    using cunseal_success [OF h]
    by (simp add: g3 g2 Let_def r sealed_cap_def sealer_cap_def data_cap_def CAP_PERM_GLOBAL_def
          cap_is_in_bounds_def cap_is_unsealed_def cap_get_cursor_def example_build_def
          split: if_splits)
  with h n show ?thesis by blast
qed

subsection \<open>Pointers to capabilities\<close>

text \<open>
  C6. For every state and every source register, \<open>helper_cfromptr\<close> with \<open>rt = 0\<close> raises
  nothing and writes the null capability to the destination register, which then reads
  as the null capability: no tag and every field zero.
\<close>

theorem cfromptr_zero_is_null:
  "helper_cfromptr b env cd cb 0 = Inr (set_capreg env cd null_capability) \<and>
   get_readonly_capreg (active_tc (set_capreg env cd null_capability)) cd = null_capability \<and>
   cr_tag null_capability = False \<and> cr_base null_capability = 0 \<and>
   cr_offset null_capability = 0 \<and> cr_top null_capability = 0 \<and>
   cr_perms null_capability = 0 \<and> cr_uperms null_capability = 0 \<and>
   cr_otype null_capability = 0"
  by (simp add: helper_cfromptr_def set_capreg_def update_capreg_def get_readonly_capreg_def
      null_capability_def)

subsection \<open>Permission arguments\<close>

text \<open>
  C7, as amended. \<open>helper_candperm\<close> never raises USRDEFINE: it masks \<open>rt\<close> with the defined
  permissions and ignores every other bit. \<open>helper_ccheckperm\<close> on a tagged capability
  raises USRDEFINE whenever \<open>rt\<close> has a bit set at or above position
  \<open>16 + CAP_MAX_UPERM\<close>; on an untagged capability it raises TAG instead.
\<close>

theorem permission_argument_checks:
  "helper_candperm b env cd cb rt \<noteq> Inl (C2_exception CP2Ca_USRDEFINE reg, env') \<and>
   (cr_tag (get_readonly_capreg (active_tc env) cb) \<and>
    \<not> is_cap_sealed b (get_readonly_capreg (active_tc env) cb)
      \<longrightarrow> helper_candperm b env cd cb rt =
            Inr (set_capreg env cd
                   ((get_readonly_capreg (active_tc env) cb)
                      \<lparr>cr_perms := cr_perms (get_readonly_capreg (active_tc env) cb) AND
                                    (ucast rt AND CAP_PERMS_ALL b),
                       cr_uperms := cr_uperms (get_readonly_capreg (active_tc env) cb) AND
                                     (drop_bit (CAP_UPERMS_SHFT b) (ucast rt) AND
                                      CAP_UPERMS_ALL b)\<rparr>))) \<and>
   (cr_tag (get_readonly_capreg (active_tc env) cs) \<and> drop_bit (16 + CAP_MAX_UPERM b) rt \<noteq> 0
      \<longrightarrow> helper_ccheckperm b env cs rt = Inl (C2_exception CP2Ca_USRDEFINE cs, env)) \<and>
   (\<not> cr_tag (get_readonly_capreg (active_tc env) cs)
      \<longrightarrow> helper_ccheckperm b env cs rt = Inl (C2_exception CP2Ca_TAG cs, env))"
  by (simp add: helper_candperm_def helper_ccheckperm_def Let_def do_raise_c2_exception_def)

text \<open>
  With bit 63 set in \<open>rt\<close>, \<open>helper_ccheckperm\<close> raises USRDEFINE on the tagged register 1
  and TAG on the untagged register 4.
\<close>

theorem permission_argument_checks_witness:
  "cr_tag (get_readonly_capreg (active_tc example_env) 1) \<and>
   drop_bit (16 + CAP_MAX_UPERM example_build) (0x8000000000000000 :: 64 word) \<noteq> 0 \<and>
   helper_ccheckperm example_build example_env 1 0x8000000000000000 =
     Inl (C2_exception CP2Ca_USRDEFINE 1, example_env) \<and>
   \<not> cr_tag (get_readonly_capreg (active_tc example_env) 4) \<and>
   helper_ccheckperm example_build example_env 4 0x8000000000000000 =
     Inl (C2_exception CP2Ca_TAG 4, example_env)"
proof -
  have t: "cr_tag (get_readonly_capreg (active_tc example_env) 1)"
    by (simp add: example_defs)
  have u: "\<not> cr_tag (get_readonly_capreg (active_tc example_env) 4)"
    by (simp add: example_defs)
  have d: "drop_bit (16 + CAP_MAX_UPERM example_build) (0x8000000000000000 :: 64 word) \<noteq> 0"
    by (simp add: example_build_def)
  show ?thesis
    using permission_argument_checks [where b = example_build and env = example_env and cs = 1
        and rt = "0x8000000000000000"]
      permission_argument_checks [where b = example_build and env = example_env and cs = 4
        and rt = "0x8000000000000000"] t u d
    by simp
qed

text \<open>
  The claim C7 as stated fails for \<open>helper_candperm\<close>: with bit 63 set in \<open>rt\<close>, far above
  every permission bit, it raises nothing and writes the masked capability; and
  \<open>helper_ccheckperm\<close> with the same argument on an untagged capability raises TAG.
\<close>

theorem candperm_undefined_bits_at_example:
  "drop_bit 32 (0x8000000000000000 :: 64 word) \<noteq> 0 \<and>
   helper_candperm example_build example_env 7 1 0x8000000000000000 =
     Inr (set_capreg example_env 7 (data_cap\<lparr>cr_perms := 0, cr_uperms := 0\<rparr>)) \<and>
   helper_ccheckperm example_build example_env 4 0x8000000000000000 =
     Inl (C2_exception CP2Ca_TAG 4, example_env)"
proof -
  have g1: "get_readonly_capreg (active_tc example_env) 1 = data_cap"
    by (simp add: get_readonly_capreg_def example_env_def example_tc_def)
  have g4: "get_readonly_capreg (active_tc example_env) 4 = untagged_sealed_cap"
    by (simp add: get_readonly_capreg_def example_env_def example_tc_def)
  have a: "helper_candperm example_build example_env 7 1 0x8000000000000000 =
     Inr (set_capreg example_env 7 (data_cap\<lparr>cr_perms := 0, cr_uperms := 0\<rparr>))"
    unfolding helper_candperm_def g1 Let_def
    by (simp add: data_cap_def example_build_def is_cap_sealed_def cap_is_sealed_with_type_def
        cap_is_sealed_entry_def)
  have c: "helper_ccheckperm example_build example_env 4 0x8000000000000000 =
     Inl (C2_exception CP2Ca_TAG 4, example_env)"
    unfolding helper_ccheckperm_def g4 Let_def
    by (simp add: untagged_sealed_cap_def data_cap_def do_raise_c2_exception_def)
  show ?thesis using a c by simp
qed

subsection \<open>Cursor arithmetic on untagged capabilities\<close>

text \<open>
  C9. When the source capability has no tag, \<open>cincoffset_impl\<close> and \<open>helper_csetoffset\<close>
  raise nothing, whatever its otype, and the destination register then holds a result
  whose cursor is the requested one: the cursor plus \<open>rt\<close> for the first, the base plus
  \<open>rt\<close> for the second. The result is the source with the new offset when the encoding
  represents it, and the unrepresentable marking of that otherwise.
\<close>

theorem untagged_offset_arithmetic_never_raises:
  assumes "\<not> cr_tag (get_readonly_capreg (active_tc env) cb)"
  shows "let cbp = get_readonly_capreg (active_tc env) cb;
             inc = (if is_representable_cap b cbp (cr_offset cbp + rt)
                    then cbp\<lparr>cr_offset := cr_offset cbp + rt\<rparr>
                    else cap_mark_unrepresentable (cap_get_cursor cbp + rt)
                           (cbp\<lparr>cr_offset := cr_offset cbp + rt\<rparr>));
             set = (if is_representable_cap b cbp rt
                    then cbp\<lparr>cr_offset := rt\<rparr>
                    else cap_mark_unrepresentable (cr_base cbp + rt) (cbp\<lparr>cr_offset := rt\<rparr>))
         in cincoffset_impl b env cd cb rt = Inr (set_capreg env cd inc) \<and>
            (case cincoffset_impl b env cd cb rt of
               Inl e \<Rightarrow> False | Inr env' \<Rightarrow> CGPR (active_tc env') cd = inc) \<and>
            cap_get_cursor inc = cap_get_cursor cbp + rt \<and>
            helper_csetoffset b env cd cb rt = Inr (set_capreg env cd set) \<and>
            (case helper_csetoffset b env cd cb rt of
               Inl e \<Rightarrow> False | Inr env' \<Rightarrow> CGPR (active_tc env') cd = set) \<and>
            cap_get_cursor set = cr_base cbp + rt"
  using assms
  by (simp add: cincoffset_impl_def helper_csetoffset_def Let_def cap_mark_unrepresentable_def
      cap_get_cursor_def add.assoc set_capreg_read)

text \<open>
  On the untagged, sealed register 4: an increment the codec cannot represent and a
  representable offset both end up in register 7, null before, without an exception.
\<close>

theorem untagged_offset_arithmetic_never_raises_witness:
  "\<not> cr_tag (get_readonly_capreg (active_tc example_env) 4) \<and>
   is_cap_sealed example_build (get_readonly_capreg (active_tc example_env) 4) \<and>
   CGPR (active_tc example_env) 7 = null_capability \<and>
   (case cincoffset_impl example_build example_env 7 4 0x2000000000000 of
      Inl e \<Rightarrow> False
    | Inr env' \<Rightarrow> CGPR (active_tc env') 7 =
        untagged_sealed_cap\<lparr>cr_offset := 0x2000000000010, cr_tag := False\<rparr>) \<and>
   (case helper_csetoffset example_build example_env 7 4 0x20 of
      Inl e \<Rightarrow> False
    | Inr env' \<Rightarrow> CGPR (active_tc env') 7 = untagged_sealed_cap\<lparr>cr_offset := 0x20\<rparr>)"
proof -
  have u: "\<not> cr_tag (get_readonly_capreg (active_tc example_env) 4)"
    by (simp add: example_defs)
  have s: "is_cap_sealed example_build (get_readonly_capreg (active_tc example_env) 4)"
    by (simp add: example_defs is_cap_sealed_def cap_is_sealed_with_type_def)
  have g: "get_readonly_capreg (active_tc example_env) 4 = untagged_sealed_cap"
    by (simp add: get_readonly_capreg_def example_env_def example_tc_def)
  have n: "CGPR (active_tc example_env) 7 = null_capability"
    by (simp add: example_env_def example_tc_def)
  have r1: "\<not> is_representable_cap example_build untagged_sealed_cap
               (cr_offset untagged_sealed_cap + 0x2000000000000)"
    by (simp add: example_build_def untagged_sealed_cap_def data_cap_def)
  have r2: "is_representable_cap example_build untagged_sealed_cap 0x20"
    by (simp add: example_build_def)
  have m: "cap_mark_unrepresentable (cap_get_cursor untagged_sealed_cap + 0x2000000000000)
             (untagged_sealed_cap\<lparr>cr_offset := cr_offset untagged_sealed_cap + 0x2000000000000\<rparr>)
           = untagged_sealed_cap\<lparr>cr_offset := 0x2000000000010, cr_tag := False\<rparr>"
    by (simp add: cap_mark_unrepresentable_def cap_get_cursor_def untagged_sealed_cap_def data_cap_def)
  show ?thesis
    using untagged_offset_arithmetic_never_raises
            [where b = example_build and rt = "0x2000000000000" and cd = 7, OF u]
      untagged_offset_arithmetic_never_raises
            [where b = example_build and rt = "0x20" and cd = 7, OF u]
      u s r1 r2 m n
    by (simp add: g Let_def set_capreg_read)
qed

subsection \<open>Conditional sealing\<close>

text \<open>
  C10. With a tagged \<open>cs\<close> and an untagged \<open>ct\<close>, \<open>helper_ccseal\<close> raises nothing and the
  destination register then holds \<open>cs\<close> unchanged, whether or not \<open>cs\<close> is sealed, while
  \<open>helper_cseal\<close> raises a TAG violation for \<open>ct\<close>.
\<close>

theorem ccseal_untagged_ct:
  assumes "cr_tag (get_readonly_capreg (active_tc env) cs)"
    and "\<not> cr_tag (get_readonly_capreg (active_tc env) ct)"
  shows "helper_ccseal b env cd cs ct =
           Inr (set_capreg env cd (get_readonly_capreg (active_tc env) cs)) \<and>
         (case helper_ccseal b env cd cs ct of
            Inl e \<Rightarrow> False
          | Inr env' \<Rightarrow> CGPR (active_tc env') cd = get_readonly_capreg (active_tc env) cs) \<and>
         helper_cseal b env cd cs ct = Inl (C2_exception CP2Ca_TAG ct, env)"
  using assms
  by (simp add: helper_ccseal_def helper_cseal_def cseal_common_def do_raise_c2_exception_def
      Let_def set_capreg_read)

text \<open>On the example state, with the sealed register 3 and the untagged register 4.\<close>

theorem ccseal_untagged_ct_witness:
  "cr_tag (get_readonly_capreg (active_tc example_env) 3) \<and>
   \<not> cr_tag (get_readonly_capreg (active_tc example_env) 4) \<and>
   is_cap_sealed example_build (get_readonly_capreg (active_tc example_env) 3) \<and>
   CGPR (active_tc example_env) 7 = null_capability \<and>
   (case helper_ccseal example_build example_env 7 3 4 of
      Inl e \<Rightarrow> False | Inr env' \<Rightarrow> CGPR (active_tc env') 7 = sealed_cap) \<and>
   helper_cseal example_build example_env 7 3 4 = Inl (C2_exception CP2Ca_TAG 4, example_env)"
proof -
  have t: "cr_tag (get_readonly_capreg (active_tc example_env) 3)"
    by (simp add: example_defs)
  have u: "\<not> cr_tag (get_readonly_capreg (active_tc example_env) 4)"
    by (simp add: example_defs)
  have s: "is_cap_sealed example_build (get_readonly_capreg (active_tc example_env) 3)"
    by (simp add: example_defs is_cap_sealed_def cap_is_sealed_with_type_def)
  have g: "get_readonly_capreg (active_tc example_env) 3 = sealed_cap"
    by (simp add: get_readonly_capreg_def example_env_def example_tc_def)
  have n: "CGPR (active_tc example_env) 7 = null_capability"
    by (simp add: example_env_def example_tc_def)
  show ?thesis
    using ccseal_untagged_ct [OF t u, of example_build 7] t u s g n
    by (simp add: set_capreg_read)
qed

subsection \<open>Setting bounds\<close>








subsection \<open>Storing a capability\<close>

lemma aligned_line:
  fixes x :: "64 word"
  assumes "x AND m = 0"
  shows "x AND NOT m = x"
proof -
  have "x = (x AND m) OR (x AND NOT m)"
    by (simp add: bit_eq_iff bit_simps) blast
  with assms show ?thesis by simp
qed

lemma tag_line_aligned:
  assumes "align_of (CHERI_CAP_SIZE b) addr = 0"
  shows "tag_line b addr = addr"
proof (cases "encoding b")
  case CHERI_256
  with assms have "addr AND 0x1f = 0" by (simp add: align_of_def CHERI_CAP_SIZE_def)
  then have "addr AND NOT 0x1f = addr" by (rule aligned_line)
  with CHERI_256 show ?thesis by (simp add: tag_line_def CHERI_CAP_SIZE_def)
next
  case CHERI_128
  with assms have "addr AND 0xf = 0" by (simp add: align_of_def CHERI_CAP_SIZE_def)
  then have "addr AND NOT 0xf = addr" by (rule aligned_line)
  with CHERI_128 show ?thesis by (simp add: tag_line_def CHERI_CAP_SIZE_def)
next
  case CHERI_MAGIC128
  with assms have "addr AND 0xf = 0" by (simp add: align_of_def CHERI_CAP_SIZE_def)
  then have "addr AND NOT 0xf = addr" by (rule aligned_line)
  with CHERI_MAGIC128 show ?thesis by (simp add: tag_line_def CHERI_CAP_SIZE_def)
qed

lemma CHERI_CAP_SIZE_pos: "0 < CHERI_CAP_SIZE b"
  by (cases "encoding b") (simp_all add: CHERI_CAP_SIZE_def)

lemma store_cap_to_memory_tag:
  assumes "tag_line b vaddr = vaddr"
  shows "tag_mem (store_cap_to_memory b env cs vaddr) vaddr =
           cr_tag (get_readonly_capreg (active_tc env) cs)"
proof (cases "encoding b")
  case CHERI_256
  then show ?thesis
    using assms CHERI_CAP_SIZE_pos [of b]
    by (simp add: store_cap_to_memory_def store_cap_to_memory_256_def Let_def cpu_stq_data_ra_def
        cheri_tag_set_def cheri_tag_invalidate_def)
next
  case CHERI_128
  then show ?thesis
    using assms CHERI_CAP_SIZE_pos [of b]
    by (simp add: store_cap_to_memory_def store_cap_to_memory_128_def Let_def cpu_stq_data_ra_def
        cheri_tag_set_def cheri_tag_invalidate_def)
next
  case CHERI_MAGIC128
  then show ?thesis
    using assms
    by (simp add: store_cap_to_memory_def store_cap_to_memory_magic128_def Let_def
        cpu_stq_data_ra_def cheri_tag_set_m128_def)
qed

lemma get_csc_addr_success:
  assumes "get_csc_addr b env cs cb rt offset = Inr vaddr"
  shows "vaddr = cap_get_cursor (get_capreg_0_is_ddc (active_tc env) cb) + rt + scast offset \<and>
         align_of (CHERI_CAP_SIZE b) vaddr = 0"
  using assms
  by (auto simp add: get_csc_addr_def Let_def do_raise_c2_exception_def do_raise_c0_exception_def
      split: if_splits)

text \<open>
  C4, as amended. A capability store through \<open>cb\<close> raises PERM_ST_CAP when \<open>cb\<close> is tagged,
  unsealed, holds STORE and lacks STORE_CAP; it raises PERM_ST_LC_CAP when \<open>cb\<close> is tagged,
  unsealed, holds STORE and STORE_CAP, lacks STORE_LOCAL, and the stored capability \<open>cs\<close>
  is tagged and lacks GLOBAL. After a successful store the target address is the start
  of its capability-sized line and the tag of that line equals the tag of \<open>cs\<close>.
\<close>

theorem csc_checks_and_tag:
  "let cbp = get_capreg_0_is_ddc (active_tc env) cb;
       csp = get_readonly_capreg (active_tc env) cs;
       vaddr = cap_get_cursor cbp + rt + scast offset
   in (cr_tag cbp \<and> \<not> is_cap_sealed b cbp \<and> cr_perms cbp AND CAP_PERM_STORE \<noteq> 0 \<and>
       cr_perms cbp AND CAP_PERM_STORE_CAP = 0 \<longrightarrow>
         helper_csc_without_tcg b env cs cb rt offset =
           Inl (C2_exception CP2Ca_PERM_ST_CAP cb, env)) \<and>
      (cr_tag cbp \<and> \<not> is_cap_sealed b cbp \<and> cr_perms cbp AND CAP_PERM_STORE \<noteq> 0 \<and>
       cr_perms cbp AND CAP_PERM_STORE_CAP \<noteq> 0 \<and> cr_perms cbp AND CAP_PERM_STORE_LOCAL = 0 \<and>
       cr_tag csp \<and> cr_perms csp AND CAP_PERM_GLOBAL = 0 \<longrightarrow>
         helper_csc_without_tcg b env cs cb rt offset =
           Inl (C2_exception CP2Ca_PERM_ST_LC_CAP cb, env)) \<and>
      (\<forall>env'. helper_csc_without_tcg b env cs cb rt offset = Inr env' \<longrightarrow>
         tag_line b vaddr = vaddr \<and> tag_mem env' vaddr = cr_tag csp)"
proof -
  have success: "tag_line b (cap_get_cursor (get_capreg_0_is_ddc (active_tc env) cb) + rt + scast offset)
                   = cap_get_cursor (get_capreg_0_is_ddc (active_tc env) cb) + rt + scast offset \<and>
                 tag_mem env' (cap_get_cursor (get_capreg_0_is_ddc (active_tc env) cb) + rt + scast offset)
                   = cr_tag (get_readonly_capreg (active_tc env) cs)"
    if h: "helper_csc_without_tcg b env cs cb rt offset = Inr env'" for env'
  proof -
    from h obtain vaddr where a: "get_csc_addr b env cs cb rt offset = Inr vaddr"
      and e: "env' = store_cap_to_memory b env cs vaddr"
      by (auto simp add: helper_csc_without_tcg_def split: sum.splits)
    have v: "vaddr = cap_get_cursor (get_capreg_0_is_ddc (active_tc env) cb) + rt + scast offset"
      and al: "align_of (CHERI_CAP_SIZE b) vaddr = 0"
      using get_csc_addr_success [OF a] by blast+
    from tag_line_aligned [OF al] have l: "tag_line b vaddr = vaddr" .
    from store_cap_to_memory_tag [OF l] e l v show ?thesis by simp
  qed
  show ?thesis
    unfolding Let_def
    apply (intro conjI impI allI)
      apply (simp add: helper_csc_without_tcg_def get_csc_addr_def Let_def do_raise_c2_exception_def)
     apply (simp add: helper_csc_without_tcg_def get_csc_addr_def Let_def do_raise_c2_exception_def)
    using success apply blast
    using success apply blast
    done
qed

text \<open>
  A store through a capability that holds STORE but not STORE_CAP raises PERM_ST_CAP; a
  store of the tagged register 3 through register 8 succeeds and sets the tag of the
  line at \<open>0x1010\<close>, which was clear before.
\<close>

theorem csc_checks_and_tag_witness:
  "helper_csc_without_tcg example_build
     (set_capreg example_env 9 (data_cap\<lparr>cr_perms := CAP_PERM_STORE\<rparr>)) 3 9 0 0 =
     Inl (C2_exception CP2Ca_PERM_ST_CAP 9,
          set_capreg example_env 9 (data_cap\<lparr>cr_perms := CAP_PERM_STORE\<rparr>)) \<and>
   helper_csc_without_tcg example_build example_env 3 8 0 0 =
     Inr (store_cap_to_memory example_build example_env 3 0x1010) \<and>
   cr_tag (get_readonly_capreg (active_tc example_env) 3) \<and>
   \<not> tag_mem example_env 0x1010 \<and>
   tag_mem (store_cap_to_memory example_build example_env 3 0x1010) 0x1010"
proof -
  let ?env8 = "set_capreg example_env 9 (data_cap\<lparr>cr_perms := CAP_PERM_STORE\<rparr>)"
  have g8: "get_capreg_0_is_ddc (active_tc ?env8) 9 = data_cap\<lparr>cr_perms := CAP_PERM_STORE\<rparr>"
    by (simp add: get_capreg_0_is_ddc_def set_capreg_def update_capreg_def)
  have p8: "cr_tag (get_capreg_0_is_ddc (active_tc ?env8) 9) \<and>
            \<not> is_cap_sealed example_build (get_capreg_0_is_ddc (active_tc ?env8) 9) \<and>
            cr_perms (get_capreg_0_is_ddc (active_tc ?env8) 9) AND CAP_PERM_STORE \<noteq> 0 \<and>
            cr_perms (get_capreg_0_is_ddc (active_tc ?env8) 9) AND CAP_PERM_STORE_CAP = 0"
    unfolding g8
    by (simp add: data_cap_def is_cap_sealed_def cap_is_sealed_with_type_def
        cap_is_sealed_entry_def example_build_def CAP_PERM_STORE_def CAP_PERM_STORE_CAP_def)
  have g1: "get_capreg_0_is_ddc (active_tc example_env) 8 = data_cap"
    by (simp add: get_capreg_0_is_ddc_def example_env_def example_tc_def)
  have g3: "get_readonly_capreg (active_tc example_env) 3 = sealed_cap"
    by (simp add: get_readonly_capreg_def example_env_def example_tc_def)
  have a: "get_csc_addr example_build example_env 3 8 0 0 = Inr 0x1010"
    unfolding get_csc_addr_def Let_def g1 g3
    by (simp add: g1 data_cap_def sealed_cap_def is_cap_sealed_def cap_is_sealed_with_type_def
        cap_is_sealed_entry_def example_build_def CAP_PERM_STORE_def CAP_PERM_STORE_CAP_def
        CAP_PERM_STORE_LOCAL_def CAP_PERM_GLOBAL_def cap_get_cursor_def cap_is_in_bounds_def
        CHERI_CAP_SIZE_def align_of_def)
  have h: "helper_csc_without_tcg example_build example_env 3 8 0 0 =
             Inr (store_cap_to_memory example_build example_env 3 0x1010)"
    unfolding helper_csc_without_tcg_def a by simp
  have v: "cap_get_cursor data_cap = (0x1010 :: 64 word)"
    by (simp add: cap_get_cursor_def data_cap_def)
  have t3: "cr_tag sealed_cap" by (simp add: sealed_cap_def data_cap_def)
  have t0: "\<not> tag_mem example_env 0x1010" by (simp add: example_env_def)
  show ?thesis
    using csc_checks_and_tag [of ?env8 9 3 0 0 example_build]
      csc_checks_and_tag [of example_env 8 3 0 0 example_build] p8 h t3 t0
    by (simp add: Let_def g1 g3 v)
qed

text \<open>
  The claim C4 as stated fails when an earlier check fails first: \<open>bare_cap\<close> is tagged and
  unsealed and lacks STORE_CAP, but it lacks STORE too, and the store raises PERM_ST.
\<close>

theorem csc_store_permission_first:
  "get_capreg_0_is_ddc (active_tc example_env) 6 = bare_cap \<and>
   cr_tag bare_cap \<and> \<not> is_cap_sealed example_build bare_cap \<and>
   cr_perms bare_cap AND CAP_PERM_STORE_CAP = 0 \<and>
   helper_csc_without_tcg example_build example_env 1 6 0 0 =
     Inl (C2_exception CP2Ca_PERM_ST 6, example_env)"
proof -
  have g6: "get_capreg_0_is_ddc (active_tc example_env) 6 = bare_cap"
    by (simp add: get_capreg_0_is_ddc_def example_env_def example_tc_def)
  have u: "cr_tag bare_cap \<and> \<not> is_cap_sealed example_build bare_cap"
    by (simp add: bare_cap_def data_cap_def is_cap_sealed_def cap_is_sealed_with_type_def
        cap_is_sealed_entry_def example_build_def)
  have p: "cr_perms bare_cap = 0" by (simp add: bare_cap_def)
  have "get_csc_addr example_build example_env 1 6 0 0 = Inl (C2_exception CP2Ca_PERM_ST 6, example_env)"
    unfolding get_csc_addr_def Let_def g6 using u p by (simp add: do_raise_c2_exception_def)
  then show ?thesis using g6 u p by (simp add: helper_csc_without_tcg_def)
qed

subsection \<open>The debugger's bitset of tags\<close>

lemma cap_valid_loop_bits:
  "bit (fold (\<lambda>i v. if cr_tag (CGPR tc i) then v OR push_bit i 1 else v) [a..<c] (w :: 64 word)) j =
     (bit w j \<or> (a \<le> j \<and> j < c \<and> j < 64 \<and> cr_tag (CGPR tc j)))"
proof (induction c)
  case 0
  then show ?case by simp
next
  case (Suc c)
  show ?case
  proof (cases "a \<le> c")
    case True
    then show ?thesis
      using Suc by (auto simp add: bit_simps less_Suc_eq)
  next
    case False
    then show ?thesis by auto
  qed
qed

lemma cap_valid_bits:
  "bit (if p then cap_valid_loop tc (if d then 0 OR 1 else 0) OR push_bit 32 1
        else cap_valid_loop tc (if d then 0 OR 1 else 0)) j =
     ((j = 0 \<and> d) \<or> (1 \<le> j \<and> j < 32 \<and> cr_tag (CGPR tc j)) \<or> (j = 32 \<and> p))"
  unfolding cap_valid_loop_def
  by (simp only: cap_valid_loop_bits bit_or_iff bit_push_bit_iff bit_1_iff bit_0_eq
      if_distrib [of "\<lambda>w. bit w j"] possible_bit_word) auto

text \<open>
  C8. A read of capability debugger register 43 returns one 64-bit word in which bit 0 is
  the tag of DDC, bit \<open>i\<close> for \<open>i\<close> from 1 to 31 is the tag of general capability register
  \<open>i\<close>, bit 32 is the tag of PCC and no higher bit is set; the state after the read is the
  state before it.
\<close>

theorem gdb_tag_bitset:
  "\<exists>v. mips_gdb_get_cheri_reg b env 43 = (([v], 8), env) \<and>
       bit v 0 = cr_tag (DDC (CHWR (active_tc env))) \<and>
       (\<forall>i. 1 \<le> i \<and> i < 32 \<longrightarrow> bit v i = cr_tag (CGPR (active_tc env) i)) \<and>
       bit v 32 = cr_tag (PCC (active_tc env)) \<and>
       (\<forall>i. 32 < i \<longrightarrow> \<not> bit v i)"
proof -
  define v where
    "v = (if cr_tag (PCC (active_tc env))
          then cap_valid_loop (active_tc env) (if cr_tag (DDC (CHWR (active_tc env))) then 0 OR 1 else 0)
                 OR push_bit 32 1
          else cap_valid_loop (active_tc env) (if cr_tag (DDC (CHWR (active_tc env))) then 0 OR 1 else 0))"
  have r: "mips_gdb_get_cheri_reg b env 43 = (([v], 8), env)"
    unfolding mips_gdb_get_cheri_reg_def gdb_get_regl_def Let_def v_def by simp
  have bits: "bit v j =
      ((j = 0 \<and> cr_tag (DDC (CHWR (active_tc env)))) \<or>
       (1 \<le> j \<and> j < 32 \<and> cr_tag (CGPR (active_tc env) j)) \<or>
       (j = 32 \<and> cr_tag (PCC (active_tc env))))" for j
    unfolding v_def by (rule cap_valid_bits)
  show ?thesis
    using r by (auto simp add: bits)
qed

text \<open>
  On the example state DDC, registers 1 and 3 and PCC are tagged, registers 4 and 31 are
  not.
\<close>

theorem gdb_tag_bitset_witness:
  "\<exists>v. mips_gdb_get_cheri_reg example_build example_env 43 = (([v], 8), example_env) \<and>
       bit v 0 \<and> bit v 1 \<and> bit v 3 \<and> \<not> bit v 4 \<and> \<not> bit v 31 \<and> bit v 32 \<and> \<not> bit v 33"
proof -
  obtain v where v: "mips_gdb_get_cheri_reg example_build example_env 43 = (([v], 8), example_env)"
    and b0: "bit v 0 = cr_tag (DDC (CHWR (active_tc example_env)))"
    and bi: "\<forall>i. 1 \<le> i \<and> i < 32 \<longrightarrow> bit v i = cr_tag (CGPR (active_tc example_env) i)"
    and b32: "bit v 32 = cr_tag (PCC (active_tc example_env))"
    and hi: "\<forall>i. 32 < i \<longrightarrow> \<not> bit v i"
    using gdb_tag_bitset [of example_build example_env] by blast
  have "bit v 0" using b0 by (simp add: example_defs)
  moreover have "bit v 1" using bi [rule_format, of 1] by (simp add: example_defs)
  moreover have "bit v 3" using bi [rule_format, of 3] by (simp add: example_defs)
  moreover have "\<not> bit v 4" using bi [rule_format, of 4] by (simp add: example_defs)
  moreover have "\<not> bit v 31" using bi [rule_format, of 31] by (simp add: example_defs)
  moreover have "bit v 32" using b32 by (simp add: example_defs)
  moreover have "\<not> bit v 33" using hi [rule_format, of 33] by simp
  ultimately show ?thesis using v by blast
qed

end
